theory Spec2Isabelle
  imports Main "HOL-Library.Multiset"
begin

section \<open>Strings of the Go standard library\<close>

text \<open>
  A Go string is a sequence of bytes; \<open>string\<close> (a list of 8-bit characters) is the same
  thing, and \<open>len(s) == 0\<close> is \<open>length s = 0\<close>.

  \<open>strings.Split(s, sep)\<close> with a one-byte separator cuts \<open>s\<close> at every occurrence of the
  separator and keeps the empty pieces, so the result has one element more than \<open>s\<close> has
  separators; \<open>strings.Split("", sep)\<close> is the one-element slice holding the empty string.
  A byte that is not the separator goes to the front of the first piece of the rest (the
  rest always has a first piece: see \<open>strings_Split_nonempty\<close>).
\<close>

fun strings_Split :: "string \<Rightarrow> char \<Rightarrow> string list" where
  "strings_Split [] sep = [[]]"
| "strings_Split (c # s) sep =
     (if c = sep then [] # strings_Split s sep
      else case strings_Split s sep of
             piece # pieces \<Rightarrow> (c # piece) # pieces
           | [] \<Rightarrow> [[c]])"

text \<open>
  \<open>strings.TrimSpace\<close> removes the leading and the trailing white space runes, as
  \<open>unicode.IsSpace\<close> defines them. On the bytes of the string these are the six ASCII bytes
  TAB, LF, VT, FF, CR and SPACE, and the UTF-8 encodings of U+0085, U+00A0 (two bytes),
  U+1680, U+2000 to U+200A, U+2028, U+2029, U+202F, U+205F and U+3000 (three bytes). A byte
  sequence that does not decode to one of these runes stops the trimming.
\<close>

definition isSpace1 :: "char \<Rightarrow> bool" where
  "isSpace1 c = (c = CHR 0x09 \<or> c = CHR 0x0A \<or> c = CHR 0x0B \<or> c = CHR 0x0C
                 \<or> c = CHR 0x0D \<or> c = CHR 0x20)"

definition isSpace2 :: "char \<Rightarrow> char \<Rightarrow> bool" where
  "isSpace2 a b = (a = CHR 0xC2 \<and> (b = CHR 0x85 \<or> b = CHR 0xA0))"

definition isSpace3 :: "char \<Rightarrow> char \<Rightarrow> char \<Rightarrow> bool" where
  "isSpace3 a b c =
     ((a = CHR 0xE1 \<and> b = CHR 0x9A \<and> c = CHR 0x80)
      \<or> (a = CHR 0xE2 \<and> b = CHR 0x80
          \<and> ((0x80::nat) \<le> of_char c \<and> of_char c \<le> (0x8A::nat)
              \<or> c = CHR 0xA8 \<or> c = CHR 0xA9 \<or> c = CHR 0xAF))
      \<or> (a = CHR 0xE2 \<and> b = CHR 0x81 \<and> c = CHR 0x9F)
      \<or> (a = CHR 0xE3 \<and> b = CHR 0x80 \<and> c = CHR 0x80))"

text \<open>
  \<open>strip p1 p2 p3\<close> drops runes from the front of a string for as long as the next one,
  two or three bytes are accepted by \<open>p1\<close>, \<open>p2\<close> or \<open>p3\<close>.
\<close>

fun strip :: "(char \<Rightarrow> bool) \<Rightarrow> (char \<Rightarrow> char \<Rightarrow> bool) \<Rightarrow> (char \<Rightarrow> char \<Rightarrow> char \<Rightarrow> bool)
              \<Rightarrow> string \<Rightarrow> string" where
  "strip p1 p2 p3 (a # b # c # s) =
     (if p1 a then strip p1 p2 p3 (b # c # s)
      else if p2 a b then strip p1 p2 p3 (c # s)
      else if p3 a b c then strip p1 p2 p3 s
      else a # b # c # s)"
| "strip p1 p2 p3 [a, b] =
     (if p1 a then strip p1 p2 p3 [b] else if p2 a b then [] else [a, b])"
| "strip p1 p2 p3 [a] = (if p1 a then [] else [a])"
| "strip p1 p2 p3 [] = []"

definition trimLeft :: "string \<Rightarrow> string" where
  "trimLeft s = strip isSpace1 isSpace2 isSpace3 s"

definition trimRight :: "string \<Rightarrow> string" where
  "trimRight s =
     rev (strip isSpace1 (\<lambda>b a. isSpace2 a b) (\<lambda>c b a. isSpace3 a b c) (rev s))"

definition strings_TrimSpace :: "string \<Rightarrow> string" where
  "strings_TrimSpace s = trimRight (trimLeft s)"

section \<open>The data of the program\<close>

text \<open>An error value, as \<open>fmt.Errorf\<close> and the libraries make them.\<close>

datatype error = Errorf string

text \<open>The recovery levels of the QR encoder; the program always passes \<open>Medium\<close>.\<close>

datatype RecoveryLevel = Low | Medium | High | Highest

text \<open>
  What the program does to the file system, in the order it does it:
  \<open>os.MkdirAll(path, os.ModePerm)\<close>, \<open>qrcode.WriteFile(content, level, size, filename)\<close>
  and \<open>os.Stat(path)\<close>.
\<close>

datatype event =
    MkdirAll string
  | WriteFile string RecoveryLevel int string
  | Stat string

text \<open>
  The lines the program prints, one constructor for each print statement of the source:
  the two banners and the failure list of \<open>processQRCode\<close>, the message of \<open>pinCodeInfo\<close>,
  the three messages of \<open>work\<close>, and what \<open>log.Fatal\<close> and a panic write before the
  process ends.
\<close>

datatype message =
    StartWork
  | FinishWork
  | FailureList "string list"
  | ValueFormatError
  | GenFailure string
  | SizeFailure string
  | FileInfo string int
  | LogFatal error
  | Panic string

record world =
  fs :: "event list"
  console :: "message list"

text \<open>
  The surroundings of a run: the number of processors \<open>runtime.NumCPU()\<close> reports, and the
  answers of the encoder and of \<open>os.Stat\<close>. An answer may depend on everything done to the
  file system so far. \<open>qrcode_WriteFile\<close> returns the error (\<open>None\<close> is Go's \<open>nil\<close>);
  \<open>os_Stat\<close> returns the error or the size \<open>fi.Size()\<close> of the file.
\<close>

record env =
  numCPU :: nat
  qrcode_WriteFile :: "event list \<Rightarrow> string \<Rightarrow> RecoveryLevel \<Rightarrow> int \<Rightarrow> string \<Rightarrow> error option"
  os_Stat :: "event list \<Rightarrow> string \<Rightarrow> error + int"

record generator =
  pinCodeList :: string
  folder :: string
  fileExt :: string

record errLog =
  errGenQRCode :: "string list"

record jobChannel =
  index :: nat
  fileContent :: string

text \<open>
  A call either returns, or ends the process: \<open>log.Fatal\<close> prints and calls \<open>os.Exit(1)\<close>,
  and a panic that nothing recovers does the same. \<open>Aborted w\<close> is the end of the
  process, with the world as it was left.
\<close>

datatype 'a outcome = Aborted world | Returned 'a

definition emit :: "message \<Rightarrow> world \<Rightarrow> world" where
  "emit m w = w\<lparr>console := console w @ [m]\<rparr>"

definition effect :: "event \<Rightarrow> world \<Rightarrow> world" where
  "effect e w = w\<lparr>fs := fs w @ [e]\<rparr>"

section \<open>The functions of the program\<close>

text \<open>
  \<open>fileSize\<close>: when \<open>os.Stat\<close> fails the function calls \<open>log.Fatal(err)\<close>, which ends the
  process; the \<open>return 0, err\<close> after it is never reached. So a call that returns always
  returns the size and a \<open>nil\<close> error.
\<close>

definition fileSize :: "env \<Rightarrow> string \<Rightarrow> world \<Rightarrow> ((int \<times> error option) \<times> world) outcome" where
  "fileSize e pingCode w =
     (case os_Stat e (fs w) pingCode of
        Inl err \<Rightarrow> Aborted (emit (LogFatal err) (effect (Stat pingCode) w))
      | Inr sz \<Rightarrow> Returned ((sz, None), effect (Stat pingCode) w))"

text \<open>
  \<open>pinCodeInfo\<close> returns the name and the payload of a record, or an error; the second
  component is what it prints.
\<close>

definition pinCodeInfo :: "string list \<Rightarrow> (error + string \<times> string) \<times> message list" where
  "pinCodeInfo valueArr =
     (if length valueArr = 1 then (Inr (valueArr ! 0, valueArr ! 0), [])
      else if length valueArr = 2 then (Inr (valueArr ! 0, valueArr ! 1), [])
      else (Inl (Errorf ''value format is error''), [ValueFormatError]))"

text \<open>
  \<open>work\<close> handles one line. Its two statements
  \<open>errGenQRCode.errGenQRCode = append(errGenQRCode.errGenQRCode, pingCode)\<close> read the shared
  slice and then store the longer one, with no lock around them. \<open>work_body\<close> is \<open>work\<close> up
  to that statement: it returns \<open>Some pingCode\<close> where \<open>work\<close> goes on to append the path,
  and \<open>None\<close> where \<open>work\<close> returns without appending. \<open>work\<close> is the whole function, run
  with no other worker in between.
\<close>

definition work_body :: "env \<Rightarrow> generator \<Rightarrow> string \<Rightarrow> world \<Rightarrow> (string option \<times> world) outcome" where
  "work_body e g fileContent' w =
     (if length fileContent' = 0 then Returned (None, w)
      else
        let valueArr = strings_Split (strings_TrimSpace fileContent') CHR 0x20 in
        case pinCodeInfo valueArr of
          (Inl err, out) \<Rightarrow> Returned (None, w\<lparr>console := console w @ out\<rparr>)
        | (Inr (valueName, valuePinCode), out) \<Rightarrow>
            let w1 = w\<lparr>console := console w @ out\<rparr>;
                pingCode = folder g @ ''/'' @ valueName @ fileExt g;
                w2 = effect (WriteFile valuePinCode Medium 256 pingCode) w1
            in
            case qrcode_WriteFile e (fs w1) valuePinCode Medium 256 pingCode of
              Some err \<Rightarrow> Returned (Some pingCode, emit (GenFailure pingCode) w2)
            | None \<Rightarrow>
                (case fileSize e pingCode w2 of
                   Aborted w3 \<Rightarrow> Aborted w3
                 | Returned ((sz, Some err), w3) \<Rightarrow>
                     Returned (Some pingCode, emit (SizeFailure pingCode) w3)
                 | Returned ((sz, None), w3) \<Rightarrow>
                     Returned (None, emit (FileInfo pingCode sz) w3)))"

definition work :: "env \<Rightarrow> generator \<Rightarrow> string \<Rightarrow> errLog \<Rightarrow> world \<Rightarrow> (errLog \<times> world) outcome" where
  "work e g fileContent' errs w =
     (case work_body e g fileContent' w of
        Aborted w' \<Rightarrow> Aborted w'
      | Returned (None, w') \<Rightarrow> Returned (errs, w')
      | Returned (Some pingCode, w') \<Rightarrow>
          Returned (errs\<lparr>errGenQRCode := errGenQRCode errs @ [pingCode]\<rparr>, w'))"

section \<open>The worker pool\<close>

text \<open>
  \<open>processQRCode\<close> starts \<open>runtime.NumCPU()\<close> goroutines that receive from the buffered
  channel \<open>jobChans\<close>, while the calling goroutine sends one job for each line, closes the
  channel and waits on the wait group. The pool is modelled by its state and one step for
  each goroutine; a schedule, the list of the goroutines in the order in which they take
  their steps, decides the interleaving.

  A worker is idle (at the head of its \<open>range\<close> loop), holds a job it has received, or
  stands between the two halves of the \<open>append\<close> statement of \<open>work\<close>: it has read the
  slice of the shared log and has not stored the longer slice yet.
\<close>

datatype wstate = Idle | Holding jobChannel | Appending string "string list"

datatype actor = Caller | Worker nat

text \<open>
  The state of the pool: the buffer of the channel and whether it is closed, the loop
  variable \<open>i\<close> of the sending loop (\<open>sent\<close>), the counter of the wait group, the workers,
  the shared error log and the world. \<open>worked\<close> is a history variable, not a variable of
  the program: the jobs on which \<open>g.work\<close> has been called, in the order of the calls.
\<close>

record pool =
  jobChans :: "jobChannel list"
  closed :: bool
  sent :: nat
  wg :: int
  workers :: "wstate list"
  shared :: errLog
  wld :: world
  worked :: "jobChannel list"

text \<open>\<open>wg.Done()\<close> panics when it makes the counter negative.\<close>

definition wg_Done :: "pool \<Rightarrow> pool outcome" where
  "wg_Done s =
     (if wg s - 1 < 0
      then Aborted (emit (Panic ''sync: negative WaitGroup counter'') (wld s))
      else Returned (s\<lparr>wg := wg s - 1\<rparr>))"

text \<open>
  One step of worker \<open>k\<close>. Idle, it receives the job at the head of the buffer, if there
  is one (with an empty buffer it blocks, or leaves its loop when the channel is closed:
  no change either way). Holding a job, it runs \<open>work\<close> up to the \<open>append\<close>; where \<open>work\<close>
  returns without appending, \<open>wg.Done()\<close> follows, and otherwise the worker has read the
  slice of the shared log. In the last state it stores the slice it read with the path
  added, \<open>work\<close> returns, and \<open>wg.Done()\<close> follows. A \<open>log.Fatal\<close> in \<open>work\<close> ends the
  process.
\<close>

definition worker_step :: "env \<Rightarrow> generator \<Rightarrow> nat \<Rightarrow> pool \<Rightarrow> pool outcome" where
  "worker_step e g k s =
     (if length (workers s) \<le> k then Returned s
      else
        case workers s ! k of
          Idle \<Rightarrow>
            (case jobChans s of
               [] \<Rightarrow> Returned s
             | job # rest \<Rightarrow>
                 Returned (s\<lparr>jobChans := rest, workers := (workers s)[k := Holding job]\<rparr>))
        | Holding job \<Rightarrow>
            (case work_body e g (fileContent job) (wld s) of
               Aborted w \<Rightarrow> Aborted w
             | Returned (None, w) \<Rightarrow>
                 wg_Done (s\<lparr>wld := w, workers := (workers s)[k := Idle],
                            worked := worked s @ [job]\<rparr>)
             | Returned (Some pingCode, w) \<Rightarrow>
                 Returned (s\<lparr>wld := w,
                             workers := (workers s)[k := Appending pingCode (errGenQRCode (shared s))],
                             worked := worked s @ [job]\<rparr>))
        | Appending pingCode slice \<Rightarrow>
            wg_Done (s\<lparr>shared := (shared s)\<lparr>errGenQRCode := slice @ [pingCode]\<rparr>,
                       workers := (workers s)[k := Idle]\<rparr>))"

text \<open>
  One step of the calling goroutine before it waits: it sends the job of line \<open>i\<close> (the
  send blocks while the buffer, of capacity \<open>fileContentCount\<close>, is full), and after the
  last line it closes the channel.
\<close>

definition caller_step :: "string list \<Rightarrow> pool \<Rightarrow> pool" where
  "caller_step fileContentArr s =
     (if sent s < length fileContentArr then
        (if length (jobChans s) < length fileContentArr
         then s\<lparr>jobChans := jobChans s @ [\<lparr>index = sent s, fileContent = fileContentArr ! sent s\<rparr>],
                sent := sent s + 1\<rparr>
         else s)
      else s\<lparr>closed := True\<rparr>)"

text \<open>
  A run of the pool under a schedule. The calling goroutine returns from \<open>wg.Wait()\<close> when
  it has closed the channel and the counter is zero; the run then ends with the state of
  the pool. A schedule that ends before that leaves the caller waiting: \<open>None\<close>.
\<close>

fun run :: "env \<Rightarrow> generator \<Rightarrow> string list \<Rightarrow> actor list \<Rightarrow> pool \<Rightarrow> pool outcome option" where
  "run e g fileContentArr [] s = None"
| "run e g fileContentArr (Caller # sched) s =
     (if sent s < length fileContentArr then run e g fileContentArr sched (caller_step fileContentArr s)
      else if closed s then
        (if wg s = 0 then Some (Returned s) else run e g fileContentArr sched s)
      else run e g fileContentArr sched (caller_step fileContentArr s))"
| "run e g fileContentArr (Worker k # sched) s =
     (case worker_step e g k s of
        Aborted w \<Rightarrow> Some (Aborted w)
      | Returned s' \<Rightarrow> run e g fileContentArr sched s')"

text \<open>The pool as \<open>processQRCode\<close> sets it up: \<open>wg.Add(fileContentCount)\<close>, one idle worker
  for each processor, an empty channel and an empty error log.\<close>

definition start :: "env \<Rightarrow> string list \<Rightarrow> world \<Rightarrow> pool" where
  "start e fileContentArr w =
     \<lparr>jobChans = [], closed = False, sent = 0, wg = int (length fileContentArr),
      workers = replicate (numCPU e) Idle, shared = \<lparr>errGenQRCode = []\<rparr>, wld = w,
      worked = []\<rparr>"

text \<open>
  The summary \<open>processQRCode\<close> returns: the format string of the source, in UTF-8, with
  the folder in the place of \<open>%s\<close>.
\<close>

definition summary :: "string \<Rightarrow> string" where
  "summary dir =
     [CHR 0xE5, CHR 0x9F, CHR 0xB7, CHR 0xE8, CHR 0xA1, CHR 0x8C, CHR 0xE5, CHR 0xAE, CHR 0x8C,
      CHR 0xE6, CHR 0x88, CHR 0x90, CHR 0xEF, CHR 0xBC, CHR 0x8C, CHR 0xE8, CHR 0xAB, CHR 0x8B,
      CHR 0xE6, CHR 0x89, CHR 0xBE, CHR 0xE8, CHR 0xB3, CHR 0x87, CHR 0xE6, CHR 0x96, CHR 0x99,
      CHR 0xE5, CHR 0xA4, CHR 0xBE, CHR 0x20, CHR 0xE3, CHR 0x80, CHR 0x8E, CHR 0x20]
     @ dir @
     [CHR 0x20, CHR 0xE3, CHR 0x80, CHR 0x8F, CHR 0x20, CHR 0xE4, CHR 0xB8, CHR 0xA6, CHR 0xE4,
      CHR 0xB8, CHR 0x94, CHR 0xE7, CHR 0xA2, CHR 0xBA, CHR 0xE8, CHR 0xAA, CHR 0x8D, CHR 0xE6,
      CHR 0xAA, CHR 0x94, CHR 0xE6, CHR 0xA1, CHR 0x88, CHR 0xE6, CHR 0x95, CHR 0xB8, CHR 0xE9,
      CHR 0x87, CHR 0x8F, CHR 0xE8, CHR 0x88, CHR 0x87, CHR 0xE5, CHR 0x85, CHR 0xA7, CHR 0xE5,
      CHR 0xAE, CHR 0xB9]"

definition processQRCode :: "env \<Rightarrow> actor list \<Rightarrow> generator \<Rightarrow> world \<Rightarrow> (string \<times> world) outcome option" where
  "processQRCode e sched g w =
     (let w1 = emit StartWork w;
          fileContentArr = strings_Split (pinCodeList g) CHR 0x0A;
          w2 = effect (MkdirAll (folder g)) w1
      in
      case run e g fileContentArr sched (start e fileContentArr w2) of
        None \<Rightarrow> None
      | Some (Aborted w') \<Rightarrow> Some (Aborted w')
      | Some (Returned s) \<Rightarrow>
          let w3 = (if length (errGenQRCode (shared s)) > 0
                    then emit (FailureList (errGenQRCode (shared s))) (wld s)
                    else wld s);
              w4 = emit FinishWork w3
          in Some (Returned (summary (folder g), w4)))"

text \<open>
  \<open>generatorQRCode\<close>, the operation the user interface calls. The generator's mutex is held
  for the whole call, so calls on one generator run one after the other; the model is of
  one call. The result is the error (in Go, with the empty string as \<open>result\<close>) or the
  summary, with the generator and the world as the call leaves them.
\<close>

definition generatorQRCode ::
  "env \<Rightarrow> actor list \<Rightarrow> generator \<Rightarrow> string \<Rightarrow> string \<Rightarrow> string \<Rightarrow> world
   \<Rightarrow> ((error + string) \<times> generator \<times> world) outcome option" where
  "generatorQRCode e sched g pinCodeList' folder' fileExt' w =
     (if length pinCodeList' = 0 then Some (Returned (Inl (Errorf ''flags readfile is empty''), g, w))
      else if length folder' = 0 then Some (Returned (Inl (Errorf ''flags folder is empty''), g, w))
      else if length fileExt' = 0 then Some (Returned (Inl (Errorf ''flags fileExt is empty''), g, w))
      else
        let g' = g\<lparr>pinCodeList := pinCodeList', folder := folder', fileExt := fileExt'\<rparr> in
        case processQRCode e sched g' w of
          None \<Rightarrow> None
        | Some (Aborted w') \<Rightarrow> Some (Aborted w')
        | Some (Returned (result, w')) \<Rightarrow> Some (Returned (Inr result, g', w')))"

section \<open>Notions used in the statements\<close>

text \<open>
  The record of a line, as \<open>work\<close> reads it before it computes the path: none for an empty
  line and for a line that \<open>pinCodeInfo\<close> rejects, and the name and the payload otherwise.
\<close>

definition record_of :: "string \<Rightarrow> (string \<times> string) option" where
  "record_of line =
     (if length line = 0 then None
      else case fst (pinCodeInfo (strings_Split (strings_TrimSpace line) CHR 0x20)) of
             Inl err \<Rightarrow> None
           | Inr r \<Rightarrow> Some r)"

text \<open>The encoder call \<open>work\<close> makes for a line, and the path of the file it asks for.\<close>

definition encode_call :: "generator \<Rightarrow> string \<Rightarrow> event list" where
  "encode_call g line =
     (case record_of line of
        None \<Rightarrow> []
      | Some (name, payload) \<Rightarrow> [WriteFile payload Medium 256 (folder g @ ''/'' @ name @ fileExt g)])"

definition destination :: "string \<Rightarrow> string \<Rightarrow> string \<Rightarrow> string list" where
  "destination folder' fileExt' line =
     (case record_of line of
        None \<Rightarrow> []
      | Some (name, payload) \<Rightarrow> [folder' @ ''/'' @ name @ fileExt'])"

text \<open>The destination paths of a whole record list, in the order of its lines.\<close>

definition destinations :: "string \<Rightarrow> string \<Rightarrow> string \<Rightarrow> string list" where
  "destinations pinCodeList' folder' fileExt' =
     concat (map (destination folder' fileExt') (strings_Split pinCodeList' CHR 0x0A))"

text \<open>
  The lines of a record list in the words of the specification: a line is trimmed of its
  surrounding white space and split on single spaces into tokens; a line that is not
  empty after the trimming and has one or two tokens is well formed, with the first token
  as its name and the last as its payload. These definitions follow the specification,
  to be compared with \<open>record_of\<close>, which follows the code: the code tests for the empty
  line before it trims, so it differs on the lines of \<open>white_only\<close>, the lines that are
  not empty and hold white space only.
\<close>

definition spec_tokens :: "string \<Rightarrow> string list" where
  "spec_tokens line = strings_Split (strings_TrimSpace line) CHR 0x20"

definition spec_well_formed :: "string \<Rightarrow> bool" where
  "spec_well_formed line =
     (strings_TrimSpace line \<noteq> []
      \<and> (length (spec_tokens line) = 1 \<or> length (spec_tokens line) = 2))"

definition spec_record :: "string \<Rightarrow> string \<times> string" where
  "spec_record line =
     (if length (spec_tokens line) = 1 then (spec_tokens line ! 0, spec_tokens line ! 0)
      else (spec_tokens line ! 0, spec_tokens line ! 1))"

definition white_only :: "string \<Rightarrow> bool" where
  "white_only line = (line \<noteq> [] \<and> strings_TrimSpace line = [])"

text \<open>
  The files a record list asks for, line by line: the file of the name for a well-formed
  line, the file with the empty name for a line of white space only, and none for an
  empty or a malformed line.
\<close>

definition spec_destinations :: "string \<Rightarrow> string \<Rightarrow> string \<Rightarrow> string list" where
  "spec_destinations pinCodeList' folder' fileExt' =
     concat (map (\<lambda>line. if spec_well_formed line \<or> white_only line
                           then [folder' @ ''/'' @ fst (spec_record line) @ fileExt']
                           else [])
                 (strings_Split pinCodeList' CHR 0x0A))"

text \<open>The paths of the encoder calls among the events: the files that were attempted.\<close>

fun attempts :: "event list \<Rightarrow> string list" where
  "attempts [] = []"
| "attempts (WriteFile payload level n path # es) = path # attempts es"
| "attempts (MkdirAll path # es) = attempts es"
| "attempts (Stat path # es) = attempts es"

text \<open>The world a call leaves, whether it returns or ends the process.\<close>

definition final_world :: "('a \<times> world) outcome \<Rightarrow> world" where
  "final_world r = (case r of Aborted w \<Rightarrow> w | Returned (x, w) \<Rightarrow> w)"

text \<open>A string made of white space runes only (see \<open>strings_TrimSpace\<close>).\<close>

fun spaces :: "string \<Rightarrow> bool" where
  "spaces (a # b # c # s) =
     (if isSpace1 a then spaces (b # c # s)
      else if isSpace2 a b then spaces (c # s)
      else isSpace3 a b c \<and> spaces s)"
| "spaces [a, b] = (if isSpace1 a then spaces [b] else isSpace2 a b)"
| "spaces [a] = isSpace1 a"
| "spaces [] = True"

text \<open>The jobs the calling goroutine sends: one for each line, with the index of the line.\<close>

definition jobs :: "string list \<Rightarrow> jobChannel list" where
  "jobs fileContentArr =
     map (\<lambda>i. \<lparr>index = i, fileContent = fileContentArr ! i\<rparr>) [0..<length fileContentArr]"

text \<open>The jobs the workers hold, and the number of workers inside an \<open>append\<close>.\<close>

fun held :: "wstate list \<Rightarrow> jobChannel list" where
  "held [] = []"
| "held (Holding job # ws) = job # held ws"
| "held (Idle # ws) = held ws"
| "held (Appending pingCode slice # ws) = held ws"

fun appending :: "wstate list \<Rightarrow> nat" where
  "appending [] = 0"
| "appending (Appending pingCode slice # ws) = Suc (appending ws)"
| "appending (Idle # ws) = appending ws"
| "appending (Holding job # ws) = appending ws"

text \<open>
  The invariant of the pool, for a run that started in the world \<open>w0\<close>: the loop variable
  is within the lines; the jobs sent so far are those worked on, those held by a worker
  and those in the buffer; the counter of the wait group is the number of lines less the
  calls of \<open>work\<close> that have returned; and the files attempted are those of the jobs
  worked on.
\<close>

definition pool_inv :: "generator \<Rightarrow> string list \<Rightarrow> world \<Rightarrow> pool \<Rightarrow> bool" where
  "pool_inv g fileContentArr w0 s =
     (sent s \<le> length fileContentArr
      \<and> mset (worked s) + mset (held (workers s)) + mset (jobChans s)
          = mset (take (sent s) (jobs fileContentArr))
      \<and> wg s + int (length (worked s)) = int (length fileContentArr) + int (appending (workers s))
      \<and> mset (attempts (fs (wld s)))
          = mset (attempts (fs w0))
            + mset (concat (map (\<lambda>job. destination (folder g) (fileExt g) (fileContent job))
                             (worked s))))"

section \<open>Inputs for the examples\<close>

definition world0 :: world where
  "world0 = \<lparr>fs = [], console = []\<rparr>"

definition generator0 :: generator where
  "generator0 = \<lparr>pinCodeList = [], folder = [], fileExt = []\<rparr>"

definition generator_out :: generator where
  "generator_out = \<lparr>pinCodeList = ''a'', folder = ''out'', fileExt = ''.png''\<rparr>"

text \<open>Two processors; the encoder and \<open>os.Stat\<close> succeed, every file has 300 bytes.\<close>

definition env_ok :: env where
  "env_ok = \<lparr>numCPU = 2, qrcode_WriteFile = (\<lambda>h c l n f. None), os_Stat = (\<lambda>h p. Inr 300)\<rparr>"

text \<open>One processor; the encoder succeeds and \<open>os.Stat\<close> fails (the file is gone again).\<close>

definition env_stat_fails :: env where
  "env_stat_fails =
     \<lparr>numCPU = 1, qrcode_WriteFile = (\<lambda>h c l n f. None),
      os_Stat = (\<lambda>h p. Inl (Errorf ''no such file or directory''))\<rparr>"

text \<open>One processor; the encoder succeeds and \<open>os.Stat\<close> reports a size of zero.\<close>

definition env_empty_file :: env where
  "env_empty_file =
     \<lparr>numCPU = 1, qrcode_WriteFile = (\<lambda>h c l n f. None), os_Stat = (\<lambda>h p. Inr 0)\<rparr>"

text \<open>Two processors; the encoder fails for every record.\<close>

definition env_encoder_fails :: env where
  "env_encoder_fails =
     \<lparr>numCPU = 2, qrcode_WriteFile = (\<lambda>h c l n f. Some (Errorf ''encode'')),
      os_Stat = (\<lambda>h p. Inr 300)\<rparr>"

text \<open>
  A record list of five lines (two records with a name, a blank line, a malformed line
  and a record without a name), a schedule of two workers for it, and the world the run
  leaves when it starts in the empty world.
\<close>

definition example_list :: string where
  "example_list = ''alice 123\<newline>bob 456\<newline>\<newline>a b c\<newline>carol''"

definition example_schedule :: "actor list" where
  "example_schedule =
     [Worker 0, Caller, Worker 0, Caller, Worker 1, Caller, Worker 1, Worker 1, Worker 0, Caller,
      Worker 0, Worker 1, Caller, Caller, Worker 0, Worker 0, Worker 1, Worker 0, Caller]"

definition example_world :: world where
  "example_world =
     \<lparr>fs = [MkdirAll ''out'', WriteFile ''456'' Medium 256 ''out/bob.png'', Stat ''out/bob.png'',
            WriteFile ''123'' Medium 256 ''out/alice.png'', Stat ''out/alice.png'',
            WriteFile ''carol'' Medium 256 ''out/carol.png'', Stat ''out/carol.png''],
      console = [StartWork, FileInfo ''out/bob.png'' 300, FileInfo ''out/alice.png'' 300,
                 ValueFormatError, FileInfo ''out/carol.png'' 300, FinishWork]\<rparr>"

text \<open>The generator after that run.\<close>

definition example_generator :: generator where
  "example_generator = \<lparr>pinCodeList = example_list, folder = ''out'', fileExt = ''.png''\<rparr>"

text \<open>Two records, and a schedule of two workers in which both workers read the error
  log before either of them stores it.\<close>

definition two_lines :: string where
  "two_lines = ''a\<newline>b''"

definition racing_schedule :: "actor list" where
  "racing_schedule =
     [Caller, Caller, Caller, Worker 0, Worker 1, Worker 0, Worker 1, Worker 0, Worker 1, Caller]"

text \<open>
  Two records with a line of one space between them, and a record list of six lines with
  white space around some records, a carriage return at the end of one, an empty line, a
  malformed line and a line of one space; a schedule for each, and the world the second
  run leaves.
\<close>

definition blank_between :: string where
  "blank_between = ''a\<newline> \<newline>b''"

definition blank_schedule :: "actor list" where
  "blank_schedule = replicate 4 Caller @ replicate 6 (Worker 0) @ [Caller]"

definition spaced_list :: string where
  "spaced_list = '' alice 123 \<newline>bob 456'' @ [CHR 0x0D] @ ''\<newline>\<newline>a b c\<newline> \<newline>carol''"

definition spaced_schedule :: "actor list" where
  "spaced_schedule =
     replicate 7 Caller
     @ [Worker 1, Worker 0, Worker 0, Worker 1, Worker 1, Worker 0, Worker 1, Worker 0, Worker 1,
        Worker 1, Worker 0, Worker 0, Caller]"

definition spaced_world :: world where
  "spaced_world =
     \<lparr>fs = [MkdirAll ''out'', WriteFile ''456'' Medium 256 ''out/bob.png'', Stat ''out/bob.png'',
            WriteFile ''123'' Medium 256 ''out/alice.png'', Stat ''out/alice.png'',
            WriteFile [] Medium 256 ''out/.png'', Stat ''out/.png'',
            WriteFile ''carol'' Medium 256 ''out/carol.png'', Stat ''out/carol.png''],
      console = [StartWork, FileInfo ''out/bob.png'' 300, FileInfo ''out/alice.png'' 300,
                 ValueFormatError, FileInfo ''out/.png'' 300, FileInfo ''out/carol.png'' 300,
                 FinishWork]\<rparr>"

text \<open>A schedule in which the first worker handles two jobs one after the other.\<close>

definition one_worker_schedule :: "actor list" where
  "one_worker_schedule = [Caller, Caller, Caller, Worker 0, Worker 0, Worker 0, Worker 0, Caller]"


section \<open>Lemmas\<close>

lemma strings_Split_nonempty: "strings_Split s sep \<noteq> []"
  by (induction s) (auto split: list.splits)

lemma attempts_append: "attempts (xs @ ys) = attempts xs @ attempts ys"
  by (induction xs rule: attempts.induct) auto

text \<open>What \<open>work\<close> does to the file system: the encoder call of the line, and perhaps the
  \<open>os.Stat\<close> that follows it.\<close>

lemma work_body_events:
  "fs (final_world (work_body e g line w)) = fs w @ encode_call g line
   \<or> (\<exists>path. fs (final_world (work_body e g line w)) = fs w @ encode_call g line @ [Stat path])"
  by (auto simp: work_body_def final_world_def encode_call_def record_of_def fileSize_def
      emit_def effect_def Let_def split: prod.splits sum.splits option.splits outcome.splits)

lemma attempts_encode_call:
  "attempts (encode_call g line) = destination (folder g) (fileExt g) line"
  by (auto simp: encode_call_def destination_def split: option.splits)

lemma work_body_attempts:
  "attempts (fs (final_world (work_body e g line w)))
     = attempts (fs w) @ destination (folder g) (fileExt g) line"
  using work_body_events [of e g line w]
  by (auto simp: attempts_append attempts_encode_call)

lemma spaces_strip: "spaces s \<Longrightarrow> strip isSpace1 isSpace2 isSpace3 s = []"
  by (induction s rule: spaces.induct) (auto split: if_splits)

lemma spaces_TrimSpace: "spaces s \<Longrightarrow> strings_TrimSpace s = []"
  by (simp add: strings_TrimSpace_def trimLeft_def trimRight_def spaces_strip)

lemma ascii_spaces: "list_all isSpace1 s \<Longrightarrow> spaces s"
  by (induction s rule: spaces.induct) auto

subsection \<open>The invariant of the pool\<close>

lemma held_update:
  "k < length ws \<Longrightarrow>
     mset (held (ws[k := x])) + mset (held [ws ! k]) = mset (held ws) + mset (held [x])"
proof (induction ws arbitrary: k)
  case Nil
  then show ?case by simp
next
  case (Cons a ws)
  show ?case
  proof (cases k)
    case 0
    then show ?thesis by (cases a; cases x) simp_all
  next
    case (Suc n)
    with Cons.prems have "n < length ws" by simp
    from Cons.IH [OF this] Suc show ?thesis by (cases a) simp_all
  qed
qed

lemma appending_update:
  "k < length ws \<Longrightarrow>
     appending (ws[k := x]) + appending [ws ! k] = appending ws + appending [x]"
proof (induction ws arbitrary: k)
  case Nil
  then show ?case by simp
next
  case (Cons a ws)
  show ?case
  proof (cases k)
    case 0
    then show ?thesis by (cases a; cases x) simp_all
  next
    case (Suc n)
    with Cons.prems have "n < length ws" by simp
    from Cons.IH [OF this] Suc show ?thesis by (cases a) simp_all
  qed
qed

lemma length_jobs: "length (jobs arr) = length arr"
  by (simp add: jobs_def)

lemma nth_jobs: "i < length arr \<Longrightarrow> jobs arr ! i = \<lparr>index = i, fileContent = arr ! i\<rparr>"
  by (simp add: jobs_def)

lemma map_fileContent_jobs: "map fileContent (jobs arr) = arr"
  by (simp add: jobs_def comp_def map_nth)

lemma distinct_jobs: "distinct (jobs arr)"
  by (simp add: jobs_def distinct_map inj_on_def)


lemma held_replicate_Idle: "held (replicate n Idle) = []"
  by (induction n) simp_all

lemma appending_replicate_Idle: "appending (replicate n Idle) = 0"
  by (induction n) simp_all

lemma inv_start: "pool_inv g arr w (start e arr w)"
  by (simp add: pool_inv_def start_def held_replicate_Idle appending_replicate_Idle)

lemma inv_caller_step: "pool_inv g arr w0 s \<Longrightarrow> pool_inv g arr w0 (caller_step arr s)"
  by (auto simp: pool_inv_def caller_step_def take_Suc_conv_app_nth length_jobs nth_jobs)

lemma inv_wg_Done:
  assumes "wg_Done s = Returned s'"
  shows "jobChans s' = jobChans s \<and> closed s' = closed s \<and> sent s' = sent s \<and> wg s' = wg s - 1
     \<and> workers s' = workers s \<and> shared s' = shared s \<and> wld s' = wld s \<and> worked s' = worked s"
  using assms by (auto simp: wg_Done_def split: if_splits)

lemma work_body_Returned_attempts:
  assumes "work_body e g line w = Returned (r, w')"
  shows "attempts (fs w') = attempts (fs w) @ destination (folder g) (fileExt g) line"
  using work_body_attempts [of e g line w] assms by (simp add: final_world_def)

lemma inv_worker_step:
  assumes i: "pool_inv g arr w0 s" and st: "worker_step e g k s = Returned s'"
  shows "pool_inv g arr w0 s'"
proof (cases "length (workers s) \<le> k")
  case True
  with st have "s' = s" by (simp add: worker_step_def)
  with i show ?thesis by simp
next
  case False
  then have k: "k < length (workers s)" by simp
  note h = held_update [OF k] and a = appending_update [OF k]
  show ?thesis
  proof (cases "workers s ! k")
    case Idle
    show ?thesis
    proof (cases "jobChans s")
      case Nil
      with st Idle k have "s' = s" by (simp add: worker_step_def)
      with i show ?thesis by simp
    next
      case (Cons job rest)
      with st Idle k have s': "s' = s\<lparr>jobChans := rest, workers := (workers s)[k := Holding job]\<rparr>"
        by (simp add: worker_step_def)
      from h [of "Holding job"] Idle
      have hh: "mset (held ((workers s)[k := Holding job])) = add_mset job (mset (held (workers s)))"
        by simp
      from a [of "Holding job"] Idle
      have aa: "appending ((workers s)[k := Holding job]) = appending (workers s)"
        by simp
      from i Cons show ?thesis
        by (simp add: pool_inv_def s' hh aa)
    qed
  next
    case (Holding job)
    show ?thesis
    proof (cases "work_body e g (fileContent job) (wld s)")
      case (Aborted w)
      with st Holding k show ?thesis by (simp add: worker_step_def)
    next
      case (Returned rw)
      obtain r w where rw: "rw = (r, w)" by (cases rw)
      note att = work_body_Returned_attempts [OF Returned [unfolded rw]]
      show ?thesis
      proof (cases r)
        case None
        with st Holding k Returned rw
        have d: "wg_Done (s\<lparr>wld := w, workers := (workers s)[k := Idle],
                            worked := worked s @ [job]\<rparr>) = Returned s'"
          by (simp add: worker_step_def)
        from h [of Idle] Holding
        have hh: "mset (held (workers s)) = add_mset job (mset (held ((workers s)[k := Idle])))"
          by simp
        from a [of Idle] Holding
        have aa: "appending ((workers s)[k := Idle]) = appending (workers s)"
          by simp
        from inv_wg_Done [OF d] i att show ?thesis
          by (simp add: pool_inv_def hh aa)
      next
        case (Some pingCode)
        with st Holding k Returned rw
        have s': "s' = s\<lparr>wld := w,
                   workers := (workers s)[k := Appending pingCode (errGenQRCode (shared s))],
                   worked := worked s @ [job]\<rparr>"
          by (simp add: worker_step_def)
        from h [of "Appending pingCode (errGenQRCode (shared s))"] Holding
        have hh: "mset (held (workers s))
            = add_mset job (mset (held ((workers s)[k := Appending pingCode (errGenQRCode (shared s))])))"
          by simp
        from a [of "Appending pingCode (errGenQRCode (shared s))"] Holding
        have aa: "appending ((workers s)[k := Appending pingCode (errGenQRCode (shared s))])
            = Suc (appending (workers s))"
          by simp
        from i att show ?thesis
          by (simp add: pool_inv_def s' hh aa)
      qed
    qed
  next
    case (Appending pingCode slice)
    with st k
    have d: "wg_Done (s\<lparr>shared := (shared s)\<lparr>errGenQRCode := slice @ [pingCode]\<rparr>,
                        workers := (workers s)[k := Idle]\<rparr>) = Returned s'"
      by (simp add: worker_step_def)
    from h [of Idle] Appending
    have hh: "mset (held ((workers s)[k := Idle])) = mset (held (workers s))"
      by simp
    from a [of Idle] Appending
    have aa: "appending (workers s) = Suc (appending ((workers s)[k := Idle]))"
      by simp
    from inv_wg_Done [OF d] i show ?thesis
      by (simp add: pool_inv_def hh aa)
  qed
qed

lemma run_Returned:
  assumes "pool_inv g arr w0 s" and "run e g arr sched s = Some (Returned s')"
  shows "pool_inv g arr w0 s' \<and> sent s' = length arr \<and> closed s' \<and> wg s' = 0"
  using assms
proof (induction sched arbitrary: s)
  case Nil
  then show ?case by simp
next
  case (Cons a sched)
  show ?case
  proof (cases a)
    case Caller
    show ?thesis
    proof (cases "\<not> sent s < length arr \<and> closed s")
      case True
      show ?thesis
      proof (cases "wg s = 0")
        case True
        with \<open>\<not> sent s < length arr \<and> closed s\<close> Cons.prems Caller show ?thesis
          by (simp add: pool_inv_def)
      next
        case False
        with True Cons.prems Caller have "run e g arr sched s = Some (Returned s')" by simp
        from Cons.IH [OF Cons.prems(1) this] show ?thesis .
      qed
    next
      case False
      with Cons.prems Caller
      have "run e g arr sched (caller_step arr s) = Some (Returned s')"
        by (auto split: if_splits)
      from Cons.IH [OF inv_caller_step [OF Cons.prems(1)] this] show ?thesis .
    qed
  next
    case (Worker k)
    show ?thesis
    proof (cases "worker_step e g k s")
      case (Aborted w)
      with Cons.prems Worker show ?thesis by simp
    next
      case (Returned s1)
      with Cons.prems Worker have "run e g arr sched s1 = Some (Returned s')" by simp
      from Cons.IH [OF inv_worker_step [OF Cons.prems(1) Returned] this] show ?thesis .
    qed
  qed
qed

lemma mset_concat_map_cong:
  "mset xs = mset ys \<Longrightarrow> mset (concat (map f xs)) = mset (concat (map f ys))"
proof -
  assume eq: "mset xs = mset ys"
  have "mset (concat (map f xs)) = sum_mset (image_mset (\<lambda>x. mset (f x)) (mset xs))" for xs
    by (induction xs) simp_all
  with eq show ?thesis by simp
qed

lemma finished_pool:
  assumes i: "pool_inv g arr w0 s" and "sent s = length arr" and "wg s = 0"
  shows "mset (worked s) = mset (jobs arr) \<and> jobChans s = [] \<and> held (workers s) = []
     \<and> appending (workers s) = 0"
proof -
  from i assms(2) have m: "mset (worked s) + mset (held (workers s)) + mset (jobChans s) = mset (jobs arr)"
    by (simp add: pool_inv_def length_jobs)
  then have "size (mset (worked s) + mset (held (workers s)) + mset (jobChans s)) = size (mset (jobs arr))"
    by simp
  then have sz: "length (worked s) + length (held (workers s)) + length (jobChans s) = length arr"
    by (simp add: length_jobs)
  from i assms(3) have "int (length (worked s)) = int (length arr) + int (appending (workers s))"
    by (simp add: pool_inv_def)
  with sz have z: "length (held (workers s)) = 0 \<and> length (jobChans s) = 0 \<and> appending (workers s) = 0"
    by linarith
  with m show ?thesis by simp
qed

lemma generate_Returned:
  assumes "generatorQRCode e sched g pinCodeList' folder' fileExt' w = Some (Returned (Inr result, g', w'))"
  shows "pinCodeList' \<noteq> [] \<and> folder' \<noteq> [] \<and> fileExt' \<noteq> []
    \<and> g' = g\<lparr>pinCodeList := pinCodeList', folder := folder', fileExt := fileExt'\<rparr>
    \<and> result = summary folder'
    \<and> (\<exists>s. run e g' (strings_Split pinCodeList' CHR 0x0A) sched
              (start e (strings_Split pinCodeList' CHR 0x0A)
                 (effect (MkdirAll folder') (emit StartWork w))) = Some (Returned s)
          \<and> fs w' = fs (wld s))"
  using assms
  by (auto simp: generatorQRCode_def processQRCode_def Let_def emit_def
      split: if_splits option.splits outcome.splits prod.splits)

lemma concat_destination_jobs:
  "concat (map (\<lambda>job. destination d x (fileContent job)) (jobs arr)) = concat (map (destination d x) arr)"
proof -
  have "map (\<lambda>job. destination d x (fileContent job)) (jobs arr)
      = map (destination d x) (map fileContent (jobs arr))"
    by simp
  then show ?thesis by (simp only: map_fileContent_jobs)
qed

lemma generate_pool:
  assumes "generatorQRCode e sched g pinCodeList' folder' fileExt' w = Some (Returned (Inr result, g', w'))"
  shows "\<exists>s. run e g' (strings_Split pinCodeList' CHR 0x0A) sched
              (start e (strings_Split pinCodeList' CHR 0x0A)
                 (effect (MkdirAll folder') (emit StartWork w))) = Some (Returned s)
          \<and> mset (worked s) = mset (jobs (strings_Split pinCodeList' CHR 0x0A))
          \<and> jobChans s = [] \<and> held (workers s) = [] \<and> appending (workers s) = 0
          \<and> closed s \<and> wg s = 0
          \<and> mset (attempts (fs w')) = mset (attempts (fs w)) + mset (destinations pinCodeList' folder' fileExt')"
proof -
  let ?arr = "strings_Split pinCodeList' CHR 0x0A"
  let ?w2 = "effect (MkdirAll folder') (emit StartWork w)"
  from generate_Returned [OF assms] obtain s where
    g': "g' = g\<lparr>pinCodeList := pinCodeList', folder := folder', fileExt := fileExt'\<rparr>"
    and r: "run e g' ?arr sched (start e ?arr ?w2) = Some (Returned s)"
    and w': "fs w' = fs (wld s)"
    by blast
  from run_Returned [OF inv_start r]
  have i: "pool_inv g' ?arr ?w2 s" and sent: "sent s = length ?arr" and c: "closed s" and z: "wg s = 0"
    by simp_all
  from finished_pool [OF i sent z]
  have f: "mset (worked s) = mset (jobs ?arr)" "jobChans s = []" "held (workers s) = []"
    "appending (workers s) = 0"
    by simp_all
  from i have "mset (attempts (fs (wld s))) = mset (attempts (fs ?w2))
      + mset (concat (map (\<lambda>job. destination (folder g') (fileExt g') (fileContent job)) (worked s)))"
    by (simp add: pool_inv_def)
  also have "attempts (fs ?w2) = attempts (fs w)"
    by (simp add: effect_def emit_def attempts_append)
  also have "mset (concat (map (\<lambda>job. destination (folder g') (fileExt g') (fileContent job)) (worked s)))
      = mset (concat (map (\<lambda>job. destination (folder g') (fileExt g') (fileContent job)) (jobs ?arr)))"
    by (rule mset_concat_map_cong [OF f(1)])
  also have "concat (map (\<lambda>job. destination (folder g') (fileExt g') (fileContent job)) (jobs ?arr))
      = destinations pinCodeList' folder' fileExt'"
    by (simp add: concat_destination_jobs destinations_def g')
  finally have "mset (attempts (fs w')) = mset (attempts (fs w)) + mset (destinations pinCodeList' folder' fileExt')"
    by (simp add: w')
  with r f c z show ?thesis by blast
qed

lemma distinct_mset_eq: "mset xs = mset ys \<Longrightarrow> distinct ys \<Longrightarrow> distinct xs"
  by (metis mset_eq_imp_distinct_iff)

subsection \<open>The code's reading of a line and the specification's\<close>

lemma TrimSpace_Nil: "strings_TrimSpace [] = []"
  by (simp add: strings_TrimSpace_def trimLeft_def trimRight_def)

lemma destination_spec:
  "destination d x line =
     (if spec_well_formed line \<or> white_only line then [d @ ''/'' @ fst (spec_record line) @ x] else [])"
proof (cases "line = []")
  case True
  then show ?thesis
    by (simp add: destination_def record_of_def spec_well_formed_def white_only_def TrimSpace_Nil)
next
  case False
  show ?thesis
  proof (cases "strings_TrimSpace line = []")
    case True
    with False show ?thesis
      by (simp add: destination_def record_of_def pinCodeInfo_def spec_well_formed_def white_only_def
          spec_record_def spec_tokens_def)
  next
    case t: False
    with False show ?thesis
      by (simp add: destination_def record_of_def pinCodeInfo_def spec_well_formed_def white_only_def
          spec_record_def spec_tokens_def)
  qed
qed

lemma destinations_spec: "destinations p d x = spec_destinations p d x"
  by (simp add: destinations_def spec_destinations_def destination_spec [abs_def])

lemma length_spec_destination:
  "length (concat (map (\<lambda>line. if spec_well_formed line \<or> white_only line then [f line] else []) ls))
     = length (filter spec_well_formed ls) + length (filter white_only ls)"
  by (induction ls) (auto simp: spec_well_formed_def white_only_def)

lemma length_spec_destinations:
  "length (spec_destinations p d x)
     = length (filter spec_well_formed (strings_Split p CHR 0x0A))
       + length (filter white_only (strings_Split p CHR 0x0A))"
  unfolding spec_destinations_def by (rule length_spec_destination)

subsection \<open>A schedule under which the call returns\<close>

text \<open>
  When \<open>os.Stat\<close> never fails and there is a worker, the call returns under the schedule
  in which the caller sends every job and closes the channel, and the first worker then
  handles the jobs one after the other.
\<close>

lemma fileSize_returns:
  assumes "\<And>h p. \<exists>sz. os_Stat e h p = Inr sz"
  shows "\<exists>sz. fileSize e p w1 = Returned ((sz, None), effect (Stat p) w1)"
proof -
  from assms obtain sz where "os_Stat e (fs w1) p = Inr sz" by blast
  then show ?thesis by (simp add: fileSize_def)
qed

lemma work_body_returns:
  assumes "\<And>h p. \<exists>sz. os_Stat e h p = Inr sz"
  shows "\<exists>r w'. work_body e g line w = Returned (r, w')"
proof (cases "length line = 0")
  case True
  then show ?thesis by (simp add: work_body_def)
next
  case False
  obtain res out where p: "pinCodeInfo (strings_Split (strings_TrimSpace line) CHR 0x20) = (res, out)"
    by (cases "pinCodeInfo (strings_Split (strings_TrimSpace line) CHR 0x20)")
  show ?thesis
  proof (cases res)
    case (Inl err)
    with False p show ?thesis by (simp add: work_body_def)
  next
    case (Inr r)
    obtain name payload where r: "r = (name, payload)" by (cases r)
    let ?w1 = "w\<lparr>console := console w @ out\<rparr>"
    let ?p = "folder g @ ''/'' @ name @ fileExt g"
    let ?w2 = "effect (WriteFile payload Medium 256 ?p) ?w1"
    show ?thesis
    proof (cases "qrcode_WriteFile e (fs ?w1) payload Medium 256 ?p")
      case (Some err)
      with False p Inr r show ?thesis by (simp add: work_body_def Let_def)
    next
      case None
      from fileSize_returns [OF assms, of ?p ?w2] obtain sz where
        "fileSize e ?p ?w2 = Returned ((sz, None), effect (Stat ?p) ?w2)" by blast
      with None False p Inr r show ?thesis by (simp add: work_body_def Let_def)
    qed
  qed
qed

lemma idle_worker_waits:
  assumes "0 < length (workers s)" and "workers s ! 0 = Idle" and "jobChans s = []"
  shows "run e g arr (replicate c (Worker 0) @ rest) s = run e g arr rest s"
proof (induction c)
  case 0
  show ?case by simp
next
  case (Suc c)
  from assms have "worker_step e g 0 s = Returned s" by (simp add: worker_step_def)
  with Suc show ?case by simp
qed

lemma step_receive:
  assumes "0 < length (workers s)" and "workers s ! 0 = Idle" and "jobChans s = job # rest"
  shows "\<exists>s1. worker_step e g 0 s = Returned s1 \<and> jobChans s1 = rest
     \<and> workers s1 ! 0 = Holding job \<and> length (workers s1) = length (workers s)
     \<and> wg s1 = wg s \<and> closed s1 = closed s \<and> sent s1 = sent s"
  using assms by (simp add: worker_step_def)

lemma step_store:
  assumes "0 < length (workers s)" and "workers s ! 0 = Appending pingCode slice" and "0 < wg s"
  shows "\<exists>s1. worker_step e g 0 s = Returned s1 \<and> jobChans s1 = jobChans s
     \<and> workers s1 ! 0 = Idle \<and> length (workers s1) = length (workers s)
     \<and> wg s1 = wg s - 1 \<and> closed s1 = closed s \<and> sent s1 = sent s"
  using assms by (simp add: worker_step_def wg_Done_def)

lemma step_work:
  assumes ok: "\<And>h p. \<exists>sz. os_Stat e h p = Inr sz"
    and "0 < length (workers s)" and "workers s ! 0 = Holding job" and "0 < wg s"
  shows "\<exists>s1. worker_step e g 0 s = Returned s1 \<and> jobChans s1 = jobChans s
     \<and> length (workers s1) = length (workers s) \<and> closed s1 = closed s \<and> sent s1 = sent s
     \<and> (workers s1 ! 0 = Idle \<and> wg s1 = wg s - 1
         \<or> (\<exists>pingCode slice. workers s1 ! 0 = Appending pingCode slice) \<and> wg s1 = wg s)"
proof -
  from work_body_returns [OF ok] obtain r w' where
    wb: "work_body e g (fileContent job) (wld s) = Returned (r, w')" by blast
  show ?thesis
  proof (cases r)
    case None
    with wb assms(2-4) show ?thesis by (simp add: worker_step_def wg_Done_def)
  next
    case (Some pingCode)
    with wb assms(2-4) show ?thesis by (simp add: worker_step_def)
  qed
qed


lemma worker_drains:
  assumes ok: "\<And>h p. \<exists>sz. os_Stat e h p = Inr sz"
  shows "length (jobChans s) = n \<Longrightarrow> 0 < length (workers s) \<Longrightarrow> workers s ! 0 = Idle
     \<Longrightarrow> int n \<le> wg s \<Longrightarrow> 3 * n \<le> c
     \<Longrightarrow> \<exists>s'. run e g arr (replicate c (Worker 0) @ rest) s = run e g arr rest s'
           \<and> jobChans s' = [] \<and> wg s' = wg s - int n \<and> closed s' = closed s \<and> sent s' = sent s"
proof (induction n arbitrary: s c)
  case 0
  then have "run e g arr (replicate c (Worker 0) @ rest) s = run e g arr rest s"
    by (simp add: idle_worker_waits)
  with 0 show ?case by auto
next
  case (Suc n)
  from Suc.prems(1) obtain job js where js: "jobChans s = job # js" and n: "length js = n"
    by (cases "jobChans s") auto
  define c1 where "c1 = c - 3"
  from Suc.prems(5) have c: "c = Suc (Suc (Suc c1))" and c1: "3 * n \<le> c1"
    by (simp_all add: c1_def)
  from step_receive [OF Suc.prems(2,3) js] obtain s1 where
    s1: "worker_step e g 0 s = Returned s1" "jobChans s1 = js" "workers s1 ! 0 = Holding job"
      "length (workers s1) = length (workers s)" "wg s1 = wg s" "closed s1 = closed s" "sent s1 = sent s"
    by blast
  from s1 Suc.prems have p1: "0 < length (workers s1)" "0 < wg s1" by simp_all
  from step_work [OF ok p1(1) s1(3) p1(2)] obtain s2 where
    s2: "worker_step e g 0 s1 = Returned s2" "jobChans s2 = jobChans s1"
      "length (workers s2) = length (workers s1)" "closed s2 = closed s1" "sent s2 = sent s1"
      "workers s2 ! 0 = Idle \<and> wg s2 = wg s1 - 1
         \<or> (\<exists>pingCode slice. workers s2 ! 0 = Appending pingCode slice) \<and> wg s2 = wg s1"
    by blast
  from s2(6) show ?case
  proof
    assume a: "workers s2 ! 0 = Idle \<and> wg s2 = wg s1 - 1"
    have "\<exists>s'. run e g arr (replicate (Suc c1) (Worker 0) @ rest) s2 = run e g arr rest s'
           \<and> jobChans s' = [] \<and> wg s' = wg s2 - int n \<and> closed s' = closed s2 \<and> sent s' = sent s2"
      using a s1 s2 n c1 Suc.prems by (intro Suc.IH) simp_all
    then obtain s' where "run e g arr (replicate (Suc c1) (Worker 0) @ rest) s2 = run e g arr rest s'"
      "jobChans s' = []" "wg s' = wg s2 - int n" "closed s' = closed s2" "sent s' = sent s2"
      by blast
    with a s1 s2 c show ?thesis by (intro exI [of _ s']) simp
  next
    assume a: "(\<exists>pingCode slice. workers s2 ! 0 = Appending pingCode slice) \<and> wg s2 = wg s1"
    then obtain pingCode slice where ap: "workers s2 ! 0 = Appending pingCode slice" by blast
    from a s1 s2 p1 have p2: "0 < length (workers s2)" "0 < wg s2" by simp_all
    from step_store [OF p2(1) ap p2(2)] obtain s3 where
      s3: "worker_step e g 0 s2 = Returned s3" "jobChans s3 = jobChans s2" "workers s3 ! 0 = Idle"
        "length (workers s3) = length (workers s2)" "wg s3 = wg s2 - 1" "closed s3 = closed s2"
        "sent s3 = sent s2"
      by blast
    have "\<exists>s'. run e g arr (replicate c1 (Worker 0) @ rest) s3 = run e g arr rest s'
           \<and> jobChans s' = [] \<and> wg s' = wg s3 - int n \<and> closed s' = closed s3 \<and> sent s' = sent s3"
      using a s1 s2 s3 n c1 Suc.prems by (intro Suc.IH) simp_all
    then obtain s' where "run e g arr (replicate c1 (Worker 0) @ rest) s3 = run e g arr rest s'"
      "jobChans s' = []" "wg s' = wg s3 - int n" "closed s' = closed s3" "sent s' = sent s3"
      by blast
    with a s1 s2 s3 c show ?thesis by (intro exI [of _ s']) simp
  qed
qed

lemma caller_sends:
  "sent s = k \<Longrightarrow> k \<le> length arr \<Longrightarrow> length (jobChans s) \<le> k \<Longrightarrow> \<not> closed s
     \<Longrightarrow> length arr - k = m
     \<Longrightarrow> \<exists>s'. run e g arr (replicate (Suc m) Caller @ rest) s = run e g arr rest s'
           \<and> sent s' = length arr \<and> closed s' \<and> length (jobChans s') = length (jobChans s) + m
           \<and> wg s' = wg s \<and> workers s' = workers s"
proof (induction m arbitrary: s k)
  case 0
  then have "run e g arr (replicate (Suc 0) Caller @ rest) s = run e g arr rest (s\<lparr>closed := True\<rparr>)"
    by (simp add: caller_step_def)
  with 0 show ?case by (intro exI [of _ "s\<lparr>closed := True\<rparr>"]) simp
next
  case (Suc m)
  let ?s1 = "caller_step arr s"
  from Suc.prems have lt: "sent s < length arr" "length (jobChans s) < length arr" by simp_all
  then have s1: "sent ?s1 = Suc k" "length (jobChans ?s1) = Suc (length (jobChans s))"
    "closed ?s1 = closed s" "wg ?s1 = wg s" "workers ?s1 = workers s"
    using Suc.prems(1) by (simp_all add: caller_step_def)
  have "\<exists>s'. run e g arr (replicate (Suc m) Caller @ rest) ?s1 = run e g arr rest s'
           \<and> sent s' = length arr \<and> closed s' \<and> length (jobChans s') = length (jobChans ?s1) + m
           \<and> wg s' = wg ?s1 \<and> workers s' = workers ?s1"
    using s1 Suc.prems by (intro Suc.IH [of _ "Suc k"]) simp_all
  then obtain s' where "run e g arr (replicate (Suc m) Caller @ rest) ?s1 = run e g arr rest s'"
    "sent s' = length arr" "closed s'" "length (jobChans s') = length (jobChans ?s1) + m"
    "wg s' = wg ?s1" "workers s' = workers ?s1"
    by blast
  with s1 lt show ?case by (intro exI [of _ s']) simp
qed

lemma sequential_schedule_returns:
  assumes ok: "\<And>h p. \<exists>sz. os_Stat e h p = Inr sz" and cpu: "0 < numCPU e"
  shows "\<exists>s. run e g arr
            (replicate (Suc (length arr)) Caller @ replicate (3 * length arr) (Worker 0) @ [Caller])
            (start e arr w) = Some (Returned s)"
proof -
  let ?rest = "replicate (3 * length arr) (Worker 0) @ [Caller]"
  have "\<exists>s'. run e g arr (replicate (Suc (length arr)) Caller @ ?rest) (start e arr w)
             = run e g arr ?rest s'
           \<and> sent s' = length arr \<and> closed s'
           \<and> length (jobChans s') = length (jobChans (start e arr w)) + length arr
           \<and> wg s' = wg (start e arr w) \<and> workers s' = workers (start e arr w)"
    by (rule caller_sends [of _ 0]) (simp_all add: start_def)
  then obtain s1 where s1: "run e g arr (replicate (Suc (length arr)) Caller @ ?rest) (start e arr w)
             = run e g arr ?rest s1"
    "sent s1 = length arr" "closed s1" "length (jobChans s1) = length arr"
    "wg s1 = int (length arr)" "workers s1 = replicate (numCPU e) Idle"
    by (auto simp: start_def)
  have "\<exists>s'. run e g arr (replicate (3 * length arr) (Worker 0) @ [Caller]) s1 = run e g arr [Caller] s'
           \<and> jobChans s' = [] \<and> wg s' = wg s1 - int (length arr) \<and> closed s' = closed s1
           \<and> sent s' = sent s1"
    using s1 cpu by (intro worker_drains [OF ok]) simp_all
  then obtain s2 where s2: "run e g arr ?rest s1 = run e g arr [Caller] s2"
    "wg s2 = 0" "closed s2" "sent s2 = length arr"
    using s1 by auto
  then have "run e g arr [Caller] s2 = Some (Returned s2)" by simp
  with s1(1) s2(1) show ?thesis by simp
qed

lemma generate_returns:
  assumes ok: "\<And>h p. \<exists>sz. os_Stat e h p = Inr sz" and cpu: "0 < numCPU e"
    and args: "pinCodeList' \<noteq> []" "folder' \<noteq> []" "fileExt' \<noteq> []"
  shows "\<exists>sched g' w'. generatorQRCode e sched g pinCodeList' folder' fileExt' w
           = Some (Returned (Inr (summary folder'), g', w'))"
proof -
  let ?arr = "strings_Split pinCodeList' CHR 0x0A"
  let ?g = "g\<lparr>pinCodeList := pinCodeList', folder := folder', fileExt := fileExt'\<rparr>"
  define sched where
    "sched = replicate (Suc (length ?arr)) Caller @ replicate (3 * length ?arr) (Worker 0) @ [Caller]"
  from sequential_schedule_returns [OF ok cpu] obtain s where
    "run e ?g ?arr sched (start e ?arr (effect (MkdirAll folder') (emit StartWork w))) = Some (Returned s)"
    unfolding sched_def by blast
  with args show ?thesis
    by (intro exI [of _ sched]) (simp add: generatorQRCode_def processQRCode_def Let_def)
qed

subsection \<open>The example runs\<close>

lemma example_run:
  "generatorQRCode env_ok example_schedule generator0 example_list ''out'' ''.png'' world0
     = Some (Returned (Inr (summary ''out''), example_generator, example_world))"
  by code_simp

lemma spaced_run:
  "generatorQRCode env_ok spaced_schedule generator0 spaced_list ''out'' ''.png'' world0
     = Some (Returned (Inr (summary ''out''),
          generator0\<lparr>pinCodeList := spaced_list, folder := ''out'', fileExt := ''.png''\<rparr>,
          spaced_world))"
  by code_simp

lemma spaced_counts:
  "length (strings_Split spaced_list CHR 0x0A) = 6
   \<and> length (filter spec_well_formed (strings_Split spaced_list CHR 0x0A)) = 3
   \<and> length (filter white_only (strings_Split spaced_list CHR 0x0A)) = 1
   \<and> spec_destinations spaced_list ''out'' ''.png''
       = [''out/alice.png'', ''out/bob.png'', ''out/.png'', ''out/carol.png'']"
  by code_simp

lemma failing_run:
  "generatorQRCode env_encoder_fails racing_schedule generator0 two_lines ''out'' ''.png'' world0
     = Some (Returned (Inr (summary ''out''),
          \<lparr>pinCodeList = two_lines, folder = ''out'', fileExt = ''.png''\<rparr>,
          \<lparr>fs = [MkdirAll ''out'', WriteFile ''a'' Medium 256 ''out/a.png'',
                 WriteFile ''b'' Medium 256 ''out/b.png''],
           console = [StartWork, GenFailure ''out/a.png'', GenFailure ''out/b.png'',
                      FailureList [''out/b.png''], FinishWork]\<rparr>))"
  by code_simp

section \<open>The claims\<close>

text \<open>
  C3. When any of the three arguments of \<open>generatorQRCode\<close> (record list, output folder,
  file extension) is the empty string, the call returns an error and leaves the world as
  it found it: no directory is made, no file is written, nothing is printed, and no
  worker takes a step, whatever the surroundings and the schedule are.
\<close>

theorem generate_rejects_empty_argument:
  assumes "pinCodeList' = [] \<or> folder' = [] \<or> fileExt' = []"
  shows "\<exists>err g'. generatorQRCode e sched g pinCodeList' folder' fileExt' w
           = Some (Returned (Inl err, g', w))"
  using assms by (auto simp: generatorQRCode_def)

theorem generate_rejects_empty_argument_witness:
  "\<exists>err g'. generatorQRCode env_ok [Caller, Worker 0] generator0 ''a b'' [] ''.png'' world0
           = Some (Returned (Inl err, g', world0))"
  by (rule generate_rejects_empty_argument) simp

text \<open>
  C10. A call of \<open>generatorQRCode\<close> that rejects its arguments because one of them is empty
  leaves the fields of the generator (record list, folder, file extension) as they were;
  the fields are assigned only when all three arguments are non-empty.
\<close>

theorem rejected_call_keeps_fields:
  assumes "generatorQRCode e sched g pinCodeList' folder' fileExt' w = Some (Returned (res, g', w'))"
  shows "(pinCodeList' = [] \<or> folder' = [] \<or> fileExt' = [] \<longrightarrow> g' = g \<and> (\<exists>err. res = Inl err))
       \<and> (pinCodeList' \<noteq> [] \<and> folder' \<noteq> [] \<and> fileExt' \<noteq> [] \<longrightarrow>
            g' = g\<lparr>pinCodeList := pinCodeList', folder := folder', fileExt := fileExt'\<rparr>
            \<and> (\<exists>r. res = Inr r))"
  using assms
  by (auto simp: generatorQRCode_def Let_def split: option.splits outcome.splits if_splits prod.splits)

theorem rejected_call_keeps_fields_witness:
  "generatorQRCode env_ok [] generator_out [] ''dir'' ''.jpg'' world0
     = Some (Returned (Inl (Errorf ''flags readfile is empty''), generator_out, world0))
   \<and> generator_out = generator_out"
  using rejected_call_keeps_fields [of env_ok "[]" generator_out "[]" "''dir''" "''.jpg''" world0
      "Inl (Errorf ''flags readfile is empty'')" generator_out world0]
  by (simp add: generatorQRCode_def)

text \<open>
  C1. The claim: a record whose file cannot be stat'ed after the encoder wrote it is
  reported as failed and the rest of the batch goes on. The program does otherwise:
  \<open>fileSize\<close> calls \<open>log.Fatal\<close>, so \<open>work\<close> on the line \<open>a\<close> ends the process instead of
  returning with the path in the error log, and in the batch of the lines \<open>a\<close> and \<open>b\<close>
  the line \<open>b\<close> is never encoded.
\<close>

theorem stat_failure_ends_process:
  "work env_stat_fails generator_out ''a'' \<lparr>errGenQRCode = []\<rparr> world0
     = Aborted \<lparr>fs = [WriteFile ''a'' Medium 256 ''out/a.png'', Stat ''out/a.png''],
                console = [LogFatal (Errorf ''no such file or directory'')]\<rparr>
   \<and> generatorQRCode env_stat_fails
        [Caller, Caller, Caller, Worker 0, Worker 0, Worker 0, Worker 0, Caller]
        generator0 [CHR ''a'', CHR 0x0A, CHR ''b''] ''out'' ''.png'' world0
     = Some (Aborted \<lparr>fs = [MkdirAll ''out'', WriteFile ''a'' Medium 256 ''out/a.png'',
                            Stat ''out/a.png''],
                      console = [StartWork, LogFatal (Errorf ''no such file or directory'')]\<rparr>)"
  by code_simp

text \<open>
  C2, as claimed, fails where \<open>os.Stat\<close> succeeds and reports a size of zero: \<open>work\<close> prints
  the path and the size and appends nothing to the error log.
\<close>

theorem empty_file_not_reported:
  "work env_empty_file generator_out ''a'' \<lparr>errGenQRCode = []\<rparr> world0
     = Returned (\<lparr>errGenQRCode = []\<rparr>,
                 \<lparr>fs = [WriteFile ''a'' Medium 256 ''out/a.png'', Stat ''out/a.png''],
                  console = [FileInfo ''out/a.png'' 0]\<rparr>)"
  by code_simp

text \<open>
  C2, amended. After a successful encoder write for a record the written file is stat'ed,
  and if the stat succeeds the record is not reported as failed, whatever size the stat
  reports: \<open>work\<close> returns with the error log unchanged, having printed the path and the
  size.
\<close>

theorem stat_success_not_reported:
  assumes "fileContent' \<noteq> []"
    and "pinCodeInfo (strings_Split (strings_TrimSpace fileContent') CHR 0x20)
           = (Inr (name, payload), out)"
    and "pingCode = folder g @ ''/'' @ name @ fileExt g"
    and "qrcode_WriteFile e (fs w) payload Medium 256 pingCode = None"
    and "os_Stat e (fs w @ [WriteFile payload Medium 256 pingCode]) pingCode = Inr sz"
  shows "work e g fileContent' errs w
     = Returned (errs, \<lparr>fs = fs w @ [WriteFile payload Medium 256 pingCode, Stat pingCode],
                        console = console w @ [FileInfo pingCode sz]\<rparr>)"
  using assms
  by (simp add: work_def work_body_def fileSize_def emit_def effect_def pinCodeInfo_def Let_def
      split: if_splits)

theorem stat_success_not_reported_witness:
  "work env_ok generator_out ''alice 123'' \<lparr>errGenQRCode = [''x'']\<rparr> world0
     = Returned (\<lparr>errGenQRCode = [''x'']\<rparr>,
                 \<lparr>fs = [WriteFile ''123'' Medium 256 ''out/alice.png'', Stat ''out/alice.png''],
                  console = [FileInfo ''out/alice.png'' 300]\<rparr>)"
  using stat_success_not_reported [of "''alice 123''" "''alice''" "''123''" "[]"
      "''out/alice.png''" generator_out env_ok world0 300 "\<lparr>errGenQRCode = [''x'']\<rparr>"]
  by (simp add: pinCodeInfo_def strings_TrimSpace_def trimLeft_def trimRight_def isSpace1_def
      isSpace2_def isSpace3_def generator_out_def env_ok_def world0_def)


text \<open>
  C9. A line that is not empty and holds white space only is not skipped as a blank line:
  the test for the empty line comes before the trimming, the trimmed line is the empty
  string, which splits into the single empty token, so the record has the empty name and
  the empty payload, and the first thing \<open>work\<close> does is the encoder call for the path
  made of the folder, a slash and the file extension.
\<close>

theorem whitespace_line_is_encoded:
  assumes "fileContent' \<noteq> []" and "spaces fileContent'"
  shows "strings_TrimSpace fileContent' = []
    \<and> strings_Split (strings_TrimSpace fileContent') CHR 0x20 = [[]]
    \<and> pinCodeInfo (strings_Split (strings_TrimSpace fileContent') CHR 0x20) = (Inr ([], []), [])
    \<and> record_of fileContent' = Some ([], [])
    \<and> take (Suc (length (fs w))) (fs (final_world (work e g fileContent' errs w)))
        = fs w @ [WriteFile [] Medium 256 (folder g @ ''/'' @ fileExt g)]"
  using assms
  by (auto simp: spaces_TrimSpace pinCodeInfo_def record_of_def work_def work_body_def
      final_world_def fileSize_def emit_def effect_def Let_def
      split: prod.splits sum.splits option.splits outcome.splits)

theorem whitespace_line_is_encoded_witness:
  "take 1 (fs (final_world (work env_ok generator_out '' '' \<lparr>errGenQRCode = []\<rparr> world0)))
     = [WriteFile [] Medium 256 ''out/.png'']"
  using whitespace_line_is_encoded [of "'' ''" world0 env_ok generator_out "\<lparr>errGenQRCode = []\<rparr>"]
  by (simp add: isSpace1_def world0_def generator_out_def)

text \<open>
  C4, as claimed, fails on a line of white space only. The record list of the lines \<open>a\<close>,
  one space and \<open>b\<close> has two lines that are not empty after trimming, both well formed,
  and one blank line; the call returns and has made three encoder calls, the second for
  the file with the empty name.
\<close>

theorem white_space_line_is_attempted:
  "strings_Split blank_between CHR 0x0A = [''a'', '' '', ''b'']
   \<and> strings_TrimSpace '' '' = []
   \<and> filter spec_well_formed [''a'', '' '', ''b''] = [''a'', ''b'']
   \<and> generatorQRCode env_ok blank_schedule generator0 blank_between ''out'' ''.png'' world0
     = Some (Returned (Inr (summary ''out''),
          \<lparr>pinCodeList = blank_between, folder = ''out'', fileExt = ''.png''\<rparr>,
          \<lparr>fs = [MkdirAll ''out'', WriteFile ''a'' Medium 256 ''out/a.png'', Stat ''out/a.png'',
                 WriteFile [] Medium 256 ''out/.png'', Stat ''out/.png'',
                 WriteFile ''b'' Medium 256 ''out/b.png'', Stat ''out/b.png''],
           console = [StartWork, FileInfo ''out/a.png'' 300, FileInfo ''out/.png'' 300,
                      FileInfo ''out/b.png'' 300, FinishWork]\<rparr>))
   \<and> attempts [MkdirAll ''out'', WriteFile ''a'' Medium 256 ''out/a.png'', Stat ''out/a.png'',
                 WriteFile [] Medium 256 ''out/.png'', Stat ''out/.png'',
                 WriteFile ''b'' Medium 256 ''out/b.png'', Stat ''out/b.png'']
     = [''out/a.png'', ''out/.png'', ''out/b.png'']"
  by code_simp

text \<open>
  C4, amended. In every call of \<open>generatorQRCode\<close> that returns a summary, the caller has
  sent one job for each line of the record list, with the index and the content of the
  line; \<open>work\<close> has been called on each of these jobs exactly once, and when the call
  returns no job is left in the channel or with a worker and the wait group is at zero.
  The encoder has been called once for each well-formed line and once for each line of
  white space only, and for no empty or malformed line: the files attempted during the
  call are, up to their order, those the record list asks for, and their number is the
  number of well-formed lines plus the number of lines of white space only. What is
  attempted in a call that \<open>log.Fatal\<close> ends is left open here (C1); \<open>generate_returns\<close>
  shows that the call returns under some schedule when \<open>os.Stat\<close> does not fail.
\<close>

theorem returning_call_jobs_and_attempts:
  assumes "generatorQRCode e sched g pinCodeList' folder' fileExt' w = Some (Returned (Inr result, g', w'))"
    and "fileContentArr = strings_Split pinCodeList' CHR 0x0A"
  shows "\<exists>s. run e g' fileContentArr sched
              (start e fileContentArr (effect (MkdirAll folder') (emit StartWork w))) = Some (Returned s)
          \<and> mset (worked s)
              = mset (map (\<lambda>i. \<lparr>index = i, fileContent = fileContentArr ! i\<rparr>) [0..<length fileContentArr])
          \<and> distinct (worked s) \<and> jobChans s = [] \<and> held (workers s) = [] \<and> wg s = 0
          \<and> mset (attempts (fs w')) = mset (attempts (fs w)) + mset (spec_destinations pinCodeList' folder' fileExt')
          \<and> size (mset (attempts (fs w')) - mset (attempts (fs w)))
              = length (filter spec_well_formed fileContentArr) + length (filter white_only fileContentArr)"
proof -
  from generate_pool [OF assms(1)] assms(2) obtain s where
    s: "run e g' fileContentArr sched
              (start e fileContentArr (effect (MkdirAll folder') (emit StartWork w))) = Some (Returned s)"
      "mset (worked s) = mset (jobs fileContentArr)" "jobChans s = []" "held (workers s) = []" "wg s = 0"
      "mset (attempts (fs w')) = mset (attempts (fs w)) + mset (destinations pinCodeList' folder' fileExt')"
    by blast
  from s(2) have d: "distinct (worked s)" by (rule distinct_mset_eq) (rule distinct_jobs)
  from s(6) have a: "mset (attempts (fs w')) = mset (attempts (fs w)) + mset (spec_destinations pinCodeList' folder' fileExt')"
    by (simp add: destinations_spec)
  then have n: "size (mset (attempts (fs w')) - mset (attempts (fs w)))
      = length (filter spec_well_formed fileContentArr) + length (filter white_only fileContentArr)"
    by (simp add: length_spec_destinations assms(2))
  from s(2) have j: "mset (worked s)
      = mset (map (\<lambda>i. \<lparr>index = i, fileContent = fileContentArr ! i\<rparr>) [0..<length fileContentArr])"
    by (simp only: jobs_def)
  from s(1,3,4,5) d a n j show ?thesis by blast
qed

theorem returning_call_jobs_and_attempts_witness:
  "\<exists>s. run env_ok (generator0\<lparr>pinCodeList := spaced_list, folder := ''out'', fileExt := ''.png''\<rparr>)
          (strings_Split spaced_list CHR 0x0A) spaced_schedule
          (start env_ok (strings_Split spaced_list CHR 0x0A)
             (effect (MkdirAll ''out'') (emit StartWork world0))) = Some (Returned s)
      \<and> mset (worked s)
          = mset (map (\<lambda>i. \<lparr>index = i, fileContent = strings_Split spaced_list CHR 0x0A ! i\<rparr>)
                   [0..<length (strings_Split spaced_list CHR 0x0A)])
      \<and> distinct (worked s) \<and> jobChans s = [] \<and> held (workers s) = [] \<and> wg s = 0
      \<and> mset (attempts (fs spaced_world))
          = mset (attempts (fs world0)) + mset (spec_destinations spaced_list ''out'' ''.png'')
      \<and> size (mset (attempts (fs spaced_world)) - mset (attempts (fs world0)))
          = length (filter spec_well_formed (strings_Split spaced_list CHR 0x0A))
            + length (filter white_only (strings_Split spaced_list CHR 0x0A))"
  by (rule returning_call_jobs_and_attempts [OF spaced_run refl])

text \<open>
  C5, as claimed, fails in one point: a malformed line does get a job. For the record
  list \<open>a b c\<close>, which \<open>pinCodeInfo\<close> rejects, the caller puts the job of the line into
  the channel, and a worker receives it and calls \<open>work\<close> on it.
\<close>

theorem malformed_line_gets_a_job:
  "pinCodeInfo (strings_Split (strings_TrimSpace ''a b c'') CHR 0x20)
     = (Inl (Errorf ''value format is error''), [ValueFormatError])
   \<and> jobChans (caller_step [''a b c''] (start env_ok [''a b c''] world0))
     = [\<lparr>index = 0, fileContent = ''a b c''\<rparr>]
   \<and> run env_ok generator_out [''a b c''] [Caller, Caller, Worker 1, Worker 1, Caller]
        (start env_ok [''a b c''] world0)
     = Some (Returned \<lparr>jobChans = [], closed = True, sent = 1, wg = 0, workers = [Idle, Idle],
                       shared = \<lparr>errGenQRCode = []\<rparr>,
                       wld = \<lparr>fs = [], console = [ValueFormatError]\<rparr>,
                       worked = [\<lparr>index = 0, fileContent = ''a b c''\<rparr>]\<rparr>)"
  by code_simp

text \<open>
  C5, amended. A non-empty line is trimmed and split at single spaces. One token gives
  the record whose name and payload are the token, and two tokens give the first as the
  name and the second as the payload; in both cases the first thing \<open>work\<close> does is the
  encoder call with the payload for the path of the name. Any other number of tokens is
  the malformed-record error: \<open>work\<close> returns having printed a message and nothing else,
  so no file is attempted and the error log and the file system are as before. A job is
  sent for the line whatever its tokens are.
\<close>

theorem record_classification:
  assumes "fileContent' \<noteq> []"
    and "valueArr = strings_Split (strings_TrimSpace fileContent') CHR 0x20"
  shows "(length valueArr = 1 \<longrightarrow>
            pinCodeInfo valueArr = (Inr (valueArr ! 0, valueArr ! 0), [])
            \<and> take (Suc (length (fs w))) (fs (final_world (work e g fileContent' errs w)))
                = fs w @ [WriteFile (valueArr ! 0) Medium 256 (folder g @ ''/'' @ valueArr ! 0 @ fileExt g)])
       \<and> (length valueArr = 2 \<longrightarrow>
            pinCodeInfo valueArr = (Inr (valueArr ! 0, valueArr ! 1), [])
            \<and> take (Suc (length (fs w))) (fs (final_world (work e g fileContent' errs w)))
                = fs w @ [WriteFile (valueArr ! 1) Medium 256 (folder g @ ''/'' @ valueArr ! 0 @ fileExt g)])
       \<and> (length valueArr \<noteq> 1 \<and> length valueArr \<noteq> 2 \<longrightarrow>
            pinCodeInfo valueArr = (Inl (Errorf ''value format is error''), [ValueFormatError])
            \<and> work e g fileContent' errs w = Returned (errs, emit ValueFormatError w)
            \<and> fs (emit ValueFormatError w) = fs w)
       \<and> (sent s < length fileContentArr \<and> length (jobChans s) < length fileContentArr
            \<and> fileContentArr ! sent s = fileContent' \<longrightarrow>
            jobChans (caller_step fileContentArr s)
              = jobChans s @ [\<lparr>index = sent s, fileContent = fileContent'\<rparr>])"
proof -
  have 1: "length valueArr = 1 \<longrightarrow>
            pinCodeInfo valueArr = (Inr (valueArr ! 0, valueArr ! 0), [])
            \<and> take (Suc (length (fs w))) (fs (final_world (work e g fileContent' errs w)))
                = fs w @ [WriteFile (valueArr ! 0) Medium 256 (folder g @ ''/'' @ valueArr ! 0 @ fileExt g)]"
    using assms
    by (auto simp: pinCodeInfo_def work_def work_body_def final_world_def fileSize_def
      emit_def effect_def Let_def split: prod.splits sum.splits option.splits outcome.splits)
  have 2: "length valueArr = 2 \<longrightarrow>
            pinCodeInfo valueArr = (Inr (valueArr ! 0, valueArr ! 1), [])
            \<and> take (Suc (length (fs w))) (fs (final_world (work e g fileContent' errs w)))
                = fs w @ [WriteFile (valueArr ! 1) Medium 256 (folder g @ ''/'' @ valueArr ! 0 @ fileExt g)]"
    using assms
    by (auto simp: pinCodeInfo_def work_def work_body_def final_world_def fileSize_def
      emit_def effect_def Let_def split: prod.splits sum.splits option.splits outcome.splits)
  have 3: "length valueArr \<noteq> 1 \<and> length valueArr \<noteq> 2 \<longrightarrow>
            pinCodeInfo valueArr = (Inl (Errorf ''value format is error''), [ValueFormatError])
            \<and> work e g fileContent' errs w = Returned (errs, emit ValueFormatError w)
            \<and> fs (emit ValueFormatError w) = fs w"
    using assms
    by (auto simp: pinCodeInfo_def work_def work_body_def emit_def Let_def)
  have 4: "sent s < length fileContentArr \<and> length (jobChans s) < length fileContentArr
            \<and> fileContentArr ! sent s = fileContent' \<longrightarrow>
            jobChans (caller_step fileContentArr s)
              = jobChans s @ [\<lparr>index = sent s, fileContent = fileContent'\<rparr>]"
    by (auto simp: caller_step_def)
  from 1 2 3 4 show ?thesis by blast
qed

theorem record_classification_witness:
  "pinCodeInfo [''alice'', ''123''] = (Inr (''alice'', ''123''), [])
   \<and> take 1 (fs (final_world (work env_ok generator_out ''alice 123'' \<lparr>errGenQRCode = []\<rparr> world0)))
       = [WriteFile ''123'' Medium 256 ''out/alice.png'']"
  using record_classification [of "''alice 123''" "[''alice'', ''123'']" world0 env_ok generator_out
      "\<lparr>errGenQRCode = []\<rparr>"]
  by (simp add: strings_TrimSpace_def trimLeft_def trimRight_def isSpace1_def isSpace2_def isSpace3_def
      world0_def generator_out_def)

text \<open>
  C6. The claim: every append to the shared error log is under mutual exclusion, and the
  final log is a permutation of the failed paths under every interleaving. In the program
  \<open>work\<close> appends with no lock around the statement. With two workers and two records for
  which the encoder fails, both workers read the empty log before either stores, and the
  log of the run holds one of the two failed paths.
\<close>

theorem lost_error_log_entry:
  "run env_encoder_fails generator_out [''a'', ''b''] racing_schedule
     (start env_encoder_fails [''a'', ''b''] world0)
   = Some (Returned \<lparr>jobChans = [], closed = True, sent = 2, wg = 0, workers = [Idle, Idle],
             shared = \<lparr>errGenQRCode = [''out/b.png'']\<rparr>,
             wld = \<lparr>fs = [WriteFile ''a'' Medium 256 ''out/a.png'',
                          WriteFile ''b'' Medium 256 ''out/b.png''],
                    console = [GenFailure ''out/a.png'', GenFailure ''out/b.png'']\<rparr>,
             worked = [\<lparr>index = 0, fileContent = ''a''\<rparr>, \<lparr>index = 1, fileContent = ''b''\<rparr>]\<rparr>)
   \<and> generatorQRCode env_encoder_fails racing_schedule generator0 two_lines ''out'' ''.png'' world0
   = Some (Returned (Inr (summary ''out''),
        \<lparr>pinCodeList = two_lines, folder = ''out'', fileExt = ''.png''\<rparr>,
        \<lparr>fs = [MkdirAll ''out'', WriteFile ''a'' Medium 256 ''out/a.png'',
               WriteFile ''b'' Medium 256 ''out/b.png''],
         console = [StartWork, GenFailure ''out/a.png'', GenFailure ''out/b.png'',
                    FailureList [''out/b.png''], FinishWork]\<rparr>))"
  by code_simp

text \<open>
  C7. Two calls of \<open>generatorQRCode\<close> with the same output folder that return a summary
  return the same one, whatever the surroundings, the schedules, the record lists and the
  failures of single records are: the summary is a function of the folder alone.
\<close>

theorem summary_depends_on_folder_only:
  assumes "generatorQRCode e1 sched1 g1 pinCodeList1 folder' fileExt1 w1 = Some (Returned (Inr result1, g1', w1'))"
    and "generatorQRCode e2 sched2 g2 pinCodeList2 folder' fileExt2 w2 = Some (Returned (Inr result2, g2', w2'))"
  shows "result1 = result2 \<and> result1 = summary folder'"
  using generate_Returned [OF assms(1)] generate_Returned [OF assms(2)] by simp

theorem summary_depends_on_folder_only_witness:
  "generatorQRCode env_ok example_schedule generator0 example_list ''out'' ''.png'' world0
     = Some (Returned (Inr (summary ''out''), example_generator, example_world))
   \<and> summary ''out'' = summary ''out''"
  using summary_depends_on_folder_only [OF example_run failing_run] example_run by simp

text \<open>
  C8. The claim: two calls with the same record list, folder and file extension attempt
  the same set of files. The program does otherwise when \<open>os.Stat\<close> fails, through the
  \<open>log.Fatal\<close> of C1: for the record list of the lines \<open>a\<close> and \<open>b\<close>, the call in which
  every stat succeeds attempts both files, and the call in which the stat of the first
  file fails ends the process having attempted the first file only.
\<close>

theorem attempted_files_vary_with_stat_failure:
  "generatorQRCode env_ok one_worker_schedule generator0 two_lines ''out'' ''.png'' world0
     = Some (Returned (Inr (summary ''out''),
          \<lparr>pinCodeList = two_lines, folder = ''out'', fileExt = ''.png''\<rparr>,
          \<lparr>fs = [MkdirAll ''out'', WriteFile ''a'' Medium 256 ''out/a.png'', Stat ''out/a.png'',
                 WriteFile ''b'' Medium 256 ''out/b.png'', Stat ''out/b.png''],
           console = [StartWork, FileInfo ''out/a.png'' 300, FileInfo ''out/b.png'' 300,
                      FinishWork]\<rparr>))
   \<and> attempts [MkdirAll ''out'', WriteFile ''a'' Medium 256 ''out/a.png'', Stat ''out/a.png'',
                 WriteFile ''b'' Medium 256 ''out/b.png'', Stat ''out/b.png'']
     = [''out/a.png'', ''out/b.png'']
   \<and> generatorQRCode env_stat_fails one_worker_schedule generator0 two_lines ''out'' ''.png'' world0
     = Some (Aborted \<lparr>fs = [MkdirAll ''out'', WriteFile ''a'' Medium 256 ''out/a.png'',
                            Stat ''out/a.png''],
                      console = [StartWork, LogFatal (Errorf ''no such file or directory'')]\<rparr>)
   \<and> attempts [MkdirAll ''out'', WriteFile ''a'' Medium 256 ''out/a.png'', Stat ''out/a.png'']
     = [''out/a.png'']
   \<and> destinations two_lines ''out'' ''.png'' = [''out/a.png'', ''out/b.png'']"
  by code_simp

end
